theory Spec2Isabelle
  imports Complex_Main
begin

section \<open>guardduty-to-slack: a shallow embedding of main.go\<close>

text \<open>
  The program forwards GuardDuty findings to Slack. The embedding follows main.go
  function by function and keeps its names. Go's \<open>error\<close> results are values of the
  datatype \<open>error\<close>; a function returning \<open>(T, error)\<close> returns \<open>error + T\<close>, a function
  returning only \<open>error\<close> returns \<open>error option\<close> (\<open>None\<close> is \<open>nil\<close>). Everything
  outside the process (the environment variables, the Slack API, the log output) is
  explicit: an environment mapping, an oracle for the outcome of a Slack call, and a
  \<open>World\<close> that records every call made.
\<close>

subsection \<open>Errors\<close>

datatype error =
    ErrorString string
      \<comment> \<open>\<open>errors.New(msg)\<close>\<close>
  | SyntaxError
      \<comment> \<open>\<open>*json.SyntaxError\<close>: the bytes are not a JSON text\<close>
  | UnmarshalTypeError string string
      \<comment> \<open>\<open>*json.UnmarshalTypeError\<close>: the kind of the JSON value, the field it was meant for\<close>
  | WrapError string error
      \<comment> \<open>\<open>fmt.Errorf(prefix + "%w", err)\<close>: the text before the wrapped error, and that error\<close>

subsection \<open>Config\<close>

record Config =
  DebugEnabled :: bool
  AwsConsoleURL :: string
  SlackToken :: string
  SlackChannel :: string

type_synonym environ = "string \<rightharpoonup> string"

definition Getenv :: "environ \<Rightarrow> string \<Rightarrow> string" where
  \<comment> \<open>\<open>os.Getenv\<close>: the value of the variable, empty when it is not set\<close>
  "Getenv env k = (case env k of None \<Rightarrow> [] | Some v \<Rightarrow> v)"

definition BuildConfig :: "environ \<Rightarrow> error + Config" where
  "BuildConfig env =
     (let cfg = \<lparr> DebugEnabled = (Getenv env ''APP_DEBUG_ENABLED'' = ''true''),
                  AwsConsoleURL = Getenv env ''APP_AWS_CONSOLE_URL'',
                  SlackToken = Getenv env ''APP_SLACK_TOKEN'',
                  SlackChannel = Getenv env ''APP_SLACK_CHANNEL'' \<rparr>
      in if SlackToken cfg = [] then Inl (ErrorString ''missing env var APP_SLACK_TOKEN'')
         else if SlackChannel cfg = [] then Inl (ErrorString ''missing env var APP_SLACK_CHANNEL'')
         else if AwsConsoleURL cfg = [] then Inl (ErrorString ''missing env var APP_AWS_CONSOLE_URL'')
         else Inr cfg)"

subsection \<open>float64 and the severity levels\<close>

text \<open>
  A \<open>float64\<close> is a finite number, an infinity or NaN. The finite values of the model are
  all the reals, of which the binary64 numbers are a subset; the program only compares
  a severity with the constants 4, 7, 9 and 10, and IEEE comparison of finite numbers
  is comparison of their values. A comparison with NaN is false.
\<close>

datatype float64 = Finite real | PosInf | NegInf | NaN

fun f64_lt :: "float64 \<Rightarrow> float64 \<Rightarrow> bool" where
  "f64_lt NaN _ = False"
| "f64_lt _ NaN = False"
| "f64_lt (Finite a) (Finite b) = (a < b)"
| "f64_lt (Finite _) PosInf = True"
| "f64_lt (Finite _) NegInf = False"
| "f64_lt NegInf NegInf = False"
| "f64_lt NegInf _ = True"
| "f64_lt PosInf _ = False"

fun f64_le :: "float64 \<Rightarrow> float64 \<Rightarrow> bool" where
  "f64_le NaN _ = False"
| "f64_le _ NaN = False"
| "f64_le (Finite a) (Finite b) = (a \<le> b)"
| "f64_le (Finite _) PosInf = True"
| "f64_le (Finite _) NegInf = False"
| "f64_le NegInf _ = True"
| "f64_le PosInf PosInf = True"
| "f64_le PosInf _ = False"

type_synonym SeverityLevel = string

definition SeverityUnknown :: SeverityLevel where "SeverityUnknown = ''unknown''"
definition SeverityLow :: SeverityLevel where "SeverityLow = ''low''"
definition SeverityMedium :: SeverityLevel where "SeverityMedium = ''medium''"
definition SeverityHigh :: SeverityLevel where "SeverityHigh = ''high''"
definition SeverityCritical :: SeverityLevel where "SeverityCritical = ''critical''"

subsection \<open>JSON payloads\<close>

text \<open>
  A \<open>json.RawMessage\<close> is a byte string. \<open>json.Unmarshal\<close> first checks that the bytes
  are one JSON text and then walks its values, so the model takes a raw message as the
  outcome of that check: \<open>Invalid\<close> for bytes that are not a JSON text (the empty
  message among them), \<open>Valid v\<close> for the text of the value \<open>v\<close>. An object keeps its
  members in the order of the text, duplicates included. The check also refuses, as a
  syntax error, a text whose arrays and objects are nested deeper than
  \<open>maxNestingDepth\<close>; such a text is a \<open>Valid v\<close> here, and \<open>Unmarshal\<close> refuses it. A number carries the
  \<open>float64\<close> that \<open>strconv.ParseFloat\<close> gives for its literal: an infinity when the
  literal is out of range.
\<close>

datatype json =
    JNull
  | JBool bool
  | JNumber float64
  | JString string
  | JArray "json list"
  | JObject "(string \<times> json) list"

datatype RawMessage = Invalid | Valid json

subsection \<open>Finding\<close>

record Finding =
  ID :: string
  AccountID :: string
  Region :: string
  Title :: string
  Description :: string
  Severity :: float64
  SeverityLabel :: SeverityLevel
  ConsoleURL :: string
  Raw :: RawMessage

definition zero_Finding :: Finding where
  \<comment> \<open>\<open>Finding{}\<close>, what \<open>var f Finding\<close> holds\<close>
  "zero_Finding = \<lparr> ID = [], AccountID = [], Region = [], Title = [], Description = [],
                     Severity = Finite 0, SeverityLabel = [], ConsoleURL = [], Raw = Invalid \<rparr>"

definition ToSeverityLevel :: "Finding \<Rightarrow> SeverityLevel" where
  "ToSeverityLevel f =
     (if f64_lt (Severity f) (Finite 4) then SeverityLow
      else if f64_lt (Severity f) (Finite 7) then SeverityMedium
      else if f64_lt (Severity f) (Finite 9) then SeverityHigh
      else if f64_le (Severity f) (Finite 10) then SeverityCritical
      else SeverityUnknown)"

subsection \<open>Decoding a payload into a Finding\<close>

text \<open>
  \<open>json.Unmarshal(raw, &f)\<close> is Go's library, modelled from the documentation of
  encoding/json. A \<open>null\<close> leaves the target as it is. The members of an object are
  taken in order; a key is looked up among the names of the fields that have no
  \<open>json:"-"\<close> tag, by its exact name first and by its folded name otherwise, and a key
  that names no field is skipped. A value of the wrong kind for its field is a type
  error: the first one is kept, decoding goes on, and the kept error is returned at the end.
\<close>

datatype field = FID | FAccountID | FRegion | FTitle | FDescription | FSeverity | FRaw

definition fieldNames :: "(string \<times> field) list" where
  "fieldNames =
     [(''id'', FID), (''accountId'', FAccountID), (''region'', FRegion), (''title'', FTitle),
      (''description'', FDescription), (''severity'', FSeverity), (''Raw'', FRaw)]"

fun foldName :: "string \<Rightarrow> string" where
  \<comment> \<open>ASCII letters to upper case; U+017F (bytes C5 BF) folds to S and U+212A (bytes E2 84 AA)
      to K; bytes of any other rune stay outside ASCII\<close>
  "foldName [] = []"
| "foldName (c # cs) =
     (if of_char c = (0xC5::nat) \<and> take 1 cs = [char_of (0xBF::nat)]
        then CHR ''S'' # foldName (drop 1 cs)
      else if of_char c = (0xE2::nat) \<and> take 2 cs = [char_of (0x84::nat), char_of (0xAA::nat)]
        then CHR ''K'' # foldName (drop 2 cs)
      else if (97::nat) \<le> of_char c \<and> of_char c \<le> (122::nat)
        then char_of (of_char c - (32::nat)) # foldName cs
      else c # foldName cs)"

definition fieldByName :: "string \<Rightarrow> field option" where
  "fieldByName key =
     (case map_of fieldNames key of
        Some fld \<Rightarrow> Some fld
      | None \<Rightarrow> map_of (map (\<lambda>(n, fld). (foldName n, fld)) fieldNames) (foldName key))"

fun jsonKind :: "json \<Rightarrow> string" where
  "jsonKind JNull = ''null''"
| "jsonKind (JBool _) = ''bool''"
| "jsonKind (JNumber _) = ''number''"
| "jsonKind (JString _) = ''string''"
| "jsonKind (JArray _) = ''array''"
| "jsonKind (JObject _) = ''object''"

fun fieldName :: "field \<Rightarrow> string" where
  "fieldName FID = ''id''"
| "fieldName FAccountID = ''accountId''"
| "fieldName FRegion = ''region''"
| "fieldName FTitle = ''title''"
| "fieldName FDescription = ''description''"
| "fieldName FSeverity = ''severity''"
| "fieldName FRaw = ''Raw''"

fun setString :: "field \<Rightarrow> string \<Rightarrow> Finding \<Rightarrow> Finding" where
  "setString FID s f = f\<lparr>ID := s\<rparr>"
| "setString FAccountID s f = f\<lparr>AccountID := s\<rparr>"
| "setString FRegion s f = f\<lparr>Region := s\<rparr>"
| "setString FTitle s f = f\<lparr>Title := s\<rparr>"
| "setString FDescription s f = f\<lparr>Description := s\<rparr>"
| "setString _ s f = f"

fun storeValue :: "field \<Rightarrow> json \<Rightarrow> Finding \<Rightarrow> error + Finding" where
  \<comment> \<open>a \<open>json.RawMessage\<close> field takes the text of any value; \<open>null\<close> leaves a string or a
      number as it is; a number literal out of the range of \<open>float64\<close> is a type error\<close>
  "storeValue FRaw v f = Inr (f\<lparr>Raw := Valid v\<rparr>)"
| "storeValue fld JNull f = Inr f"
| "storeValue FSeverity (JNumber (Finite x)) f = Inr (f\<lparr>Severity := Finite x\<rparr>)"
| "storeValue FSeverity v f = Inl (UnmarshalTypeError (jsonKind v) (fieldName FSeverity))"
| "storeValue fld (JString s) f = Inr (setString fld s f)"
| "storeValue fld v f = Inl (UnmarshalTypeError (jsonKind v) (fieldName fld))"

fun decodeObject :: "(string \<times> json) list \<Rightarrow> Finding \<times> error option \<Rightarrow> Finding \<times> error option" where
  "decodeObject [] st = st"
| "decodeObject ((key, v) # kvs) (f, saved) =
     (case fieldByName key of
        None \<Rightarrow> decodeObject kvs (f, saved)
      | Some fld \<Rightarrow>
          (case storeValue fld v f of
             Inl err \<Rightarrow> decodeObject kvs (f, (case saved of None \<Rightarrow> Some err | Some e \<Rightarrow> Some e))
           | Inr f' \<Rightarrow> decodeObject kvs (f', saved)))"

fun decodeValue :: "json \<Rightarrow> Finding \<Rightarrow> Finding \<times> error option" where
  \<comment> \<open>decoding the top-level value into the struct\<close>
  "decodeValue JNull f = (f, None)"
| "decodeValue (JObject kvs) f = decodeObject kvs (f, None)"
| "decodeValue v f = (f, Some (UnmarshalTypeError (jsonKind v) []))"

definition maxNestingDepth :: nat where
  "maxNestingDepth = 10000"

fun nestingDepth :: "json \<Rightarrow> nat" where
  \<comment> \<open>how many arrays and objects are open at the deepest place of the text; an empty
      array or object counts\<close>
  "nestingDepth (JArray vs) = Suc (foldr max (map nestingDepth vs) 0)"
| "nestingDepth (JObject kvs) = Suc (foldr max (map (\<lambda>kv. nestingDepth (snd kv)) kvs) 0)"
| "nestingDepth v = 0"

fun Unmarshal :: "RawMessage \<Rightarrow> Finding \<Rightarrow> Finding \<times> error option" where
  \<comment> \<open>the validity check of the whole text first, then the decoding\<close>
  "Unmarshal Invalid f = (f, Some SyntaxError)"
| "Unmarshal (Valid v) f =
     (if maxNestingDepth < nestingDepth v then (f, Some SyntaxError) else decodeValue v f)"

subsection \<open>The application\<close>

fun Sprintf :: "string \<Rightarrow> string list \<Rightarrow> string" where
  \<comment> \<open>\<open>fmt.Sprintf\<close> for formats whose only verb is \<open>%s\<close>, with string operands\<close>
  "Sprintf [] args = []"
| "Sprintf [c] args = [c]"
| "Sprintf (c # d # cs) args =
     (if c = CHR ''%'' \<and> d = CHR ''s''
      then (case args of
              [] \<Rightarrow> ''%!s(MISSING)'' @ Sprintf cs []
            | a # as \<Rightarrow> a @ Sprintf cs as)
      else c # Sprintf (d # cs) args)"

record Client =
  token :: string

record App =
  cfg :: Config
  client :: Client

definition NewApp :: "Config \<Rightarrow> App" where
  "NewApp c = \<lparr> cfg = c, client = \<lparr> token = SlackToken c \<rparr> \<rparr>"

definition ParseFindingData :: "App \<Rightarrow> RawMessage \<Rightarrow> error + Finding" where
  "ParseFindingData a raw =
     (case Unmarshal raw zero_Finding of
        (f, Some err) \<Rightarrow> Inl err
      | (f, None) \<Rightarrow>
          (let f1 = f\<lparr>ConsoleURL :=
                      Sprintf ''%s/guardduty/home?region=%s#/findings?&macros=current&fId=%s''
                        [AwsConsoleURL (cfg a), Region f, ID f]\<rparr>;
               f2 = f1\<lparr>Raw := raw\<rparr>
           in Inr (f2\<lparr>SeverityLabel := ToSeverityLevel f2\<rparr>)))"

subsection \<open>Slack messages and the outside world\<close>

text \<open>
  The values of github.com/slack-go/slack that \<open>CreateThread\<close> builds: a text object is
  what \<open>NewTextBlockObject(type, text, emoji, verbatim)\<close> was given, a block is one of the
  four kinds the program uses, with the operands of its constructor.
\<close>

record TextBlockObject =
  Type :: string
  Text :: string
  Emoji :: bool
  Verbatim :: bool

record ButtonBlockElement =
  ActionID :: string
  Value :: string
  ButtonText :: TextBlockObject
  URL :: string

datatype Block =
    HeaderBlock TextBlockObject
  | SectionBlock "TextBlockObject option" "TextBlockObject list" "ButtonBlockElement option"
      \<comment> \<open>text, fields, accessory; \<open>nil\<close> is \<open>None\<close> or the empty list\<close>
  | DividerBlock
  | ActionBlock string "ButtonBlockElement list"
      \<comment> \<open>block id, elements\<close>

definition NewTextBlockObject :: "string \<Rightarrow> string \<Rightarrow> bool \<Rightarrow> bool \<Rightarrow> TextBlockObject" where
  "NewTextBlockObject elementType text emoji verbatim =
     \<lparr> Type = elementType, Text = text, Emoji = emoji, Verbatim = verbatim \<rparr>"

definition NewButtonBlockElement :: "string \<Rightarrow> string \<Rightarrow> TextBlockObject \<Rightarrow> ButtonBlockElement" where
  "NewButtonBlockElement actionID val text =
     \<lparr> ActionID = actionID, Value = val, ButtonText = text, URL = [] \<rparr>"

record PostMessageRequest =
  ReqToken :: string
  ReqChannel :: string
  ReqText :: string
  ReqBlocks :: "Block list"

datatype LogArg = ArgString string | ArgFloat float64

record World =
  posted :: "PostMessageRequest list"
    \<comment> \<open>every call of \<open>PostMessage\<close> so far, oldest first\<close>
  logged :: "(string \<times> LogArg list) list"
    \<comment> \<open>every call of \<open>log.Printf\<close> so far: its format and operands\<close>

type_synonym SlackAPI = "PostMessageRequest list \<Rightarrow> PostMessageRequest \<Rightarrow> error option"
  \<comment> \<open>what Slack (or the network) answers to a request, given the requests before it\<close>

definition PostMessage ::
  "SlackAPI \<Rightarrow> Client \<Rightarrow> string \<Rightarrow> string \<Rightarrow> Block list \<Rightarrow> World \<Rightarrow> error option \<times> World" where
  "PostMessage api c channel text blocks w =
     (let req = \<lparr> ReqToken = token c, ReqChannel = channel, ReqText = text, ReqBlocks = blocks \<rparr>
      in (api (posted w) req, w\<lparr>posted := posted w @ [req]\<rparr>))"

definition Printf :: "string \<Rightarrow> LogArg list \<Rightarrow> World \<Rightarrow> World" where
  "Printf format args w = w\<lparr>logged := logged w @ [(format, args)]\<rparr>"

definition CreateThread :: "SlackAPI \<Rightarrow> App \<Rightarrow> Finding \<Rightarrow> World \<Rightarrow> error option \<times> World" where
  "CreateThread api a f w =
     (let header = HeaderBlock (NewTextBlockObject ''plain_text'' (Title f) True False);
          fields =
            [NewTextBlockObject ''mrkdwn'' (''*Severity:* '' @ SeverityLabel f) False False,
             NewTextBlockObject ''mrkdwn'' (''*Region:* '' @ Region f) False False,
             NewTextBlockObject ''mrkdwn'' (''*Account:* '' @ AccountID f) False False];
          details = SectionBlock None fields None;
          desc = SectionBlock (Some (NewTextBlockObject ''plain_text'' (Description f) False False)) [] None;
          btn = NewButtonBlockElement ''view'' []
                  (NewTextBlockObject ''plain_text'' ''View in Console'' False False);
          btn = btn\<lparr>URL := ConsoleURL f\<rparr>;
          actions = ActionBlock ''actions'' [btn]
      in PostMessage api (client a) (SlackChannel (cfg a)) (Title f)
           [header, details, desc, DividerBlock, actions] w)"

definition Process :: "SlackAPI \<Rightarrow> App \<Rightarrow> RawMessage \<Rightarrow> World \<Rightarrow> error option \<times> World" where
  "Process api a raw w =
     (case ParseFindingData a raw of
        Inl err \<Rightarrow> (Some err, w)
      | Inr f \<Rightarrow>
          (let w1 = (if DebugEnabled (cfg a)
                     then Printf (''finding id=%s severity=%.1f'' @ [char_of (10::nat)])
                            [ArgString (ID f), ArgFloat (Severity f)] w
                     else w)
           in CreateThread api a f w1))"

subsection \<open>Replaying the samples\<close>

record CloudWatchEvent =
  EventID :: string
  Detail :: RawMessage

fun processEvents :: "SlackAPI \<Rightarrow> App \<Rightarrow> CloudWatchEvent list \<Rightarrow> World \<Rightarrow> error option \<times> World" where
  \<comment> \<open>the \<open>for _, e := range events\<close> loop of \<open>ProcessSamples\<close>\<close>
  "processEvents api a [] w = (None, w)"
| "processEvents api a (e # es) w =
     (case Process api a (Detail e) w of
        (Some err, w') \<Rightarrow> (Some (WrapError (''process id='' @ EventID e @ '': '') err), w')
      | (None, w') \<Rightarrow> processEvents api a es w')"

definition ProcessSamples ::
  "(string \<Rightarrow> error + string) \<Rightarrow> (string \<Rightarrow> error + CloudWatchEvent list) \<Rightarrow>
   SlackAPI \<Rightarrow> App \<Rightarrow> World \<Rightarrow> error option \<times> World" where
  \<comment> \<open>\<open>readFile\<close> is \<open>os.ReadFile\<close> on the file system of the run, \<open>unmarshalEvents\<close> is
      \<open>json.Unmarshal\<close> into a slice of \<open>events.CloudWatchEvent\<close>\<close>
  "ProcessSamples readFile unmarshalEvents api a w =
     (case readFile ''fixtures/samples.json'' of
        Inl err \<Rightarrow> (Some (WrapError ''read fixtures/samples.json: '' err), w)
      | Inr data \<Rightarrow>
          (case unmarshalEvents data of
             Inl err \<Rightarrow> (Some (WrapError ''parse samples.json: '' err), w)
           | Inr events \<Rightarrow> processEvents api a events w))"

subsection \<open>Predicates of the statements and sample inputs\<close>




definition sampleConfig :: Config where
  "sampleConfig = \<lparr> DebugEnabled = False,
       AwsConsoleURL = ''https://us-east-1.console.aws.amazon.com'',
       SlackToken = ''xoxb-test'', SlackChannel = ''C0000000001'' \<rparr>"

definition samplePayload :: RawMessage where
  "samplePayload = Valid (JObject
     [(''id'', JString ''abc123''), (''accountId'', JString ''123456789012''),
      (''region'', JString ''us-east-1''), (''title'', JString ''Test''),
      (''description'', JString ''A test finding''), (''severity'', JNumber (Finite (19 / 2)))])"

definition sampleFinding :: Finding where
  "sampleFinding = \<lparr> ID = ''abc123'', AccountID = ''123456789012'', Region = ''us-east-1'',
       Title = ''Test'', Description = ''A test finding'', Severity = Finite (19 / 2),
       SeverityLabel = ''critical'',
       ConsoleURL = ''https://us-east-1.console.aws.amazon.com/guardduty/home?region=us-east-1#/findings?&macros=current&fId=abc123'',
       Raw = samplePayload \<rparr>"



fun nest :: "nat \<Rightarrow> json \<Rightarrow> json" where
  \<comment> \<open>the value inside \<open>n\<close> arrays\<close>
  "nest 0 v = v"
| "nest (Suc n) v = JArray [nest n v]"


definition slackAccepts :: SlackAPI where
  "slackAccepts history req = None"

definition slackRejects :: SlackAPI where
  "slackRejects history req = Some (ErrorString ''channel_not_found'')"

definition emptyWorld :: World where
  "emptyWorld = \<lparr> posted = [], logged = [] \<rparr>"

definition sampleEvents :: "CloudWatchEvent list" where
  "sampleEvents =
     [\<lparr> EventID = ''e1'', Detail = samplePayload \<rparr>,
      \<lparr> EventID = ''e2'', Detail = Invalid \<rparr>,
      \<lparr> EventID = ''e3'', Detail = samplePayload \<rparr>]"

definition sampleReadFile :: "string \<Rightarrow> error + string" where
  "sampleReadFile path =
     (if path = ''fixtures/samples.json'' then Inr ''[three events]''
      else Inl (ErrorString ''no such file or directory''))"

definition sampleUnmarshalEvents :: "string \<Rightarrow> error + CloudWatchEvent list" where
  "sampleUnmarshalEvents data = Inr sampleEvents"

definition sampleGoodEvents :: "CloudWatchEvent list" where
  "sampleGoodEvents =
     [\<lparr> EventID = ''e1'', Detail = samplePayload \<rparr>,
      \<lparr> EventID = ''e3'', Detail = samplePayload \<rparr>]"

definition sampleUnmarshalGood :: "string \<Rightarrow> error + CloudWatchEvent list" where
  "sampleUnmarshalGood data = Inr sampleGoodEvents"

definition sampleEnv :: environ where
  "sampleEnv = [''APP_SLACK_TOKEN'' \<mapsto> ''xoxb-test'', ''APP_SLACK_CHANNEL'' \<mapsto> ''C0000000001'',
                ''APP_AWS_CONSOLE_URL'' \<mapsto> ''https://us-east-1.console.aws.amazon.com'']"

definition requestFor :: "App \<Rightarrow> Finding \<Rightarrow> PostMessageRequest" where
  \<comment> \<open>the request of \<open>CreateThread\<close> for a Finding, written out (lemma \<open>CreateThread_eq\<close>)\<close>
  "requestFor a f =
     \<lparr> ReqToken = token (client a), ReqChannel = SlackChannel (cfg a), ReqText = Title f,
       ReqBlocks =
         [HeaderBlock \<lparr> Type = ''plain_text'', Text = Title f, Emoji = True, Verbatim = False \<rparr>,
          SectionBlock None
            [\<lparr> Type = ''mrkdwn'', Text = ''*Severity:* '' @ SeverityLabel f, Emoji = False, Verbatim = False \<rparr>,
             \<lparr> Type = ''mrkdwn'', Text = ''*Region:* '' @ Region f, Emoji = False, Verbatim = False \<rparr>,
             \<lparr> Type = ''mrkdwn'', Text = ''*Account:* '' @ AccountID f, Emoji = False, Verbatim = False \<rparr>]
            None,
          SectionBlock
            (Some \<lparr> Type = ''plain_text'', Text = Description f, Emoji = False, Verbatim = False \<rparr>)
            [] None,
          DividerBlock,
          ActionBlock ''actions''
            [\<lparr> ActionID = ''view'', Value = [],
               ButtonText = \<lparr> Type = ''plain_text'', Text = ''View in Console'', Emoji = False, Verbatim = False \<rparr>,
               URL = ConsoleURL f \<rparr>]] \<rparr>"

section \<open>Properties\<close>

subsection \<open>The severity classifier\<close>

lemma ToSeverityLevel_Severity:
  "Severity f = Severity g \<Longrightarrow> ToSeverityLevel f = ToSeverityLevel g"
  by (simp add: ToSeverityLevel_def)

lemma ToSeverityLevel_cases:
  "ToSeverityLevel f \<in> {SeverityLow, SeverityMedium, SeverityHigh, SeverityCritical, SeverityUnknown}"
  by (simp add: ToSeverityLevel_def)

text \<open>
  From 0 upwards the classifier follows the table of boundaries; an infinity above and
  NaN are \<open>unknown\<close>.
\<close>

lemma ToSeverityLevel_table:
  "0 \<le> s \<Longrightarrow> ToSeverityLevel (f\<lparr>Severity := Finite s\<rparr>) =
     (if s < 4 then SeverityLow else if s < 7 then SeverityMedium
      else if s < 9 then SeverityHigh else if s \<le> 10 then SeverityCritical
      else SeverityUnknown)"
  by (simp add: ToSeverityLevel_def)

lemma ToSeverityLevel_edges:
  "ToSeverityLevel (f\<lparr>Severity := Finite 0\<rparr>) = SeverityLow"
  "ToSeverityLevel (f\<lparr>Severity := Finite 4\<rparr>) = SeverityMedium"
  "ToSeverityLevel (f\<lparr>Severity := Finite 7\<rparr>) = SeverityHigh"
  "ToSeverityLevel (f\<lparr>Severity := Finite 9\<rparr>) = SeverityCritical"
  "ToSeverityLevel (f\<lparr>Severity := Finite 10\<rparr>) = SeverityCritical"
  "ToSeverityLevel (f\<lparr>Severity := Finite (100001 / 10000)\<rparr>) = SeverityUnknown"
  "ToSeverityLevel (f\<lparr>Severity := PosInf\<rparr>) = SeverityUnknown"
  "ToSeverityLevel (f\<lparr>Severity := NaN\<rparr>) = SeverityUnknown"
  by (simp_all add: ToSeverityLevel_def)

text \<open>
  C1: the classifier returns \<open>unknown\<close> for every score outside the range from 0 to 10,
  negative scores included, so that the score -1 is \<open>unknown\<close>. The first case of
  \<open>ToSeverityLevel\<close> has no lower bound: the score -1 is below 4 and is classified
  \<open>low\<close>, which is not \<open>unknown\<close>; the same holds for every negative score.
\<close>

theorem ToSeverityLevel_minus_one_low:
  "ToSeverityLevel (f\<lparr>Severity := Finite (- 1)\<rparr>) = SeverityLow \<and>
   ToSeverityLevel (f\<lparr>Severity := Finite (- 1)\<rparr>) \<noteq> SeverityUnknown"
  by (simp add: ToSeverityLevel_def SeverityLow_def SeverityUnknown_def)

lemma ToSeverityLevel_negative:
  "s < 0 \<Longrightarrow> ToSeverityLevel (f\<lparr>Severity := Finite s\<rparr>) = SeverityLow"
  "ToSeverityLevel (f\<lparr>Severity := NegInf\<rparr>) = SeverityLow"
  by (simp_all add: ToSeverityLevel_def)

subsection \<open>Parsing a payload\<close>

lemma Sprintf_consoleURL:
  "Sprintf ''%s/guardduty/home?region=%s#/findings?&macros=current&fId=%s'' [b, r, i]
     = b @ ''/guardduty/home?region='' @ r @ ''#/findings?&macros=current&fId='' @ i"
  by simp

lemma ParseFindingData_Inr:
  assumes "ParseFindingData a raw = Inr f"
  shows "\<exists>g. Unmarshal raw zero_Finding = (g, None) \<and>
           f = g\<lparr>ConsoleURL := AwsConsoleURL (cfg a) @ ''/guardduty/home?region='' @ Region g
                                  @ ''#/findings?&macros=current&fId='' @ ID g,
                 Raw := raw, SeverityLabel := ToSeverityLevel g\<rparr>"
proof -
  obtain g s where u: "Unmarshal raw zero_Finding = (g, s)" by (cases "Unmarshal raw zero_Finding")
  with assms have s: "s = None" by (cases s) (simp_all add: ParseFindingData_def)
  from assms u s
  have "f = g\<lparr>ConsoleURL := AwsConsoleURL (cfg a) @ ''/guardduty/home?region='' @ Region g
                                  @ ''#/findings?&macros=current&fId='' @ ID g,
                 Raw := raw, SeverityLabel := ToSeverityLevel g\<rparr>"
    unfolding ParseFindingData_def Let_def
    by (simp add: Sprintf_consoleURL
          ToSeverityLevel_Severity [of "g\<lparr>ConsoleURL := u, Raw := raw\<rparr>" g for u]
        del: Sprintf.simps)
  with u s show ?thesis by blast
qed


lemma ParseFindingData_Invalid: "ParseFindingData a Invalid = Inl SyntaxError"
  by (simp add: ParseFindingData_def)

lemma ParseFindingData_samplePayload:
  "ParseFindingData (NewApp sampleConfig) samplePayload = Inr sampleFinding"
  by (simp add: ParseFindingData_def samplePayload_def sampleConfig_def NewApp_def sampleFinding_def
      fieldByName_def fieldNames_def zero_Finding_def ToSeverityLevel_def SeverityCritical_def
      maxNestingDepth_def)






text \<open>What \<open>CreateThread\<close> and \<open>Process\<close> do with a Finding and with the result of parsing.\<close>

lemma CreateThread_eq:
  "CreateThread api a f w =
     (api (posted w) (requestFor a f), w\<lparr>posted := posted w @ [requestFor a f]\<rparr>)"
  by (simp add: CreateThread_def PostMessage_def NewTextBlockObject_def NewButtonBlockElement_def
      requestFor_def Let_def)

lemma Process_Inl: "ParseFindingData a raw = Inl err \<Longrightarrow> Process api a raw w = (Some err, w)"
  by (simp add: Process_def)

lemma Process_Inr:
  "ParseFindingData a raw = Inr f \<Longrightarrow>
     fst (Process api a raw w) = api (posted w) (requestFor a f) \<and>
     posted (snd (Process api a raw w)) = posted w @ [requestFor a f] \<and>
     logged (snd (Process api a raw w)) =
       (if DebugEnabled (cfg a)
        then logged w @ [(''finding id=%s severity=%.1f'' @ [char_of (10::nat)],
                          [ArgString (ID f), ArgFloat (Severity f)])]
        else logged w)"
  by (simp add: Process_def CreateThread_eq Printf_def Let_def)

lemma nestingDepth_nest: "nestingDepth (nest n v) = n + nestingDepth v"
  by (induction n) simp_all

text \<open>An object that is well typed but nested too deeply is refused.\<close>

lemma ParseFindingData_too_deep:
  "ParseFindingData a (Valid (JObject [(''id'', JString ''i''), (''Raw'', nest 10000 JNull)]))
     = Inl SyntaxError"
  by (simp add: ParseFindingData_def nestingDepth_nest maxNestingDepth_def)




text \<open>
  C4: the \<open>ConsoleURL\<close> of every parsed Finding is the base URL of the Config, the region
  and the id of the Finding put into the template
  \<open>{base}/guardduty/home?region={region}#/findings?&macros=current&fId={id}\<close>.
  For the base URL \<open>https://us-east-1.console.aws.amazon.com\<close>, the region \<open>us-east-1\<close>
  and the id \<open>abc123\<close> this is the URL of the sample Finding.
\<close>

theorem ParseFindingData_ConsoleURL:
  "ParseFindingData a raw = Inr f \<Longrightarrow>
     ConsoleURL f = AwsConsoleURL (cfg a) @ ''/guardduty/home?region='' @ Region f
                      @ ''#/findings?&macros=current&fId='' @ ID f"
  by (drule ParseFindingData_Inr) auto

theorem ParseFindingData_ConsoleURL_witness:
  "ParseFindingData (NewApp sampleConfig) samplePayload = Inr sampleFinding \<and>
   AwsConsoleURL (cfg (NewApp sampleConfig)) = ''https://us-east-1.console.aws.amazon.com'' \<and>
   Region sampleFinding = ''us-east-1'' \<and> ID sampleFinding = ''abc123'' \<and>
   ConsoleURL sampleFinding =
     ''https://us-east-1.console.aws.amazon.com/guardduty/home?region=us-east-1#/findings?&macros=current&fId=abc123''"
  using ParseFindingData_ConsoleURL [OF ParseFindingData_samplePayload] ParseFindingData_samplePayload
  by (simp add: sampleFinding_def NewApp_def sampleConfig_def)

text \<open>
  C7: every Finding that \<open>ParseFindingData\<close> returns has its two derived fields set and
  consistent: \<open>SeverityLabel\<close> is the classifier applied to the Finding, hence one of the
  five labels and not empty, and \<open>ConsoleURL\<close> is the template applied to the base URL of
  the Config, the region and the id of the Finding, hence not empty. The payload is
  kept in \<open>Raw\<close>.
\<close>

theorem ParseFindingData_derived_fields:
  "ParseFindingData a raw = Inr f \<Longrightarrow>
     SeverityLabel f = ToSeverityLevel f \<and>
     ConsoleURL f = Sprintf ''%s/guardduty/home?region=%s#/findings?&macros=current&fId=%s''
                      [AwsConsoleURL (cfg a), Region f, ID f] \<and>
     SeverityLabel f \<in> {SeverityLow, SeverityMedium, SeverityHigh, SeverityCritical, SeverityUnknown} \<and>
     SeverityLabel f \<noteq> [] \<and> ConsoleURL f \<noteq> [] \<and> Raw f = raw"
proof -
  assume "ParseFindingData a raw = Inr f"
  from ParseFindingData_Inr [OF this] obtain g where
    f: "f = g\<lparr>ConsoleURL := AwsConsoleURL (cfg a) @ ''/guardduty/home?region='' @ Region g
                                  @ ''#/findings?&macros=current&fId='' @ ID g,
                 Raw := raw, SeverityLabel := ToSeverityLevel g\<rparr>"
    by blast
  have s: "ToSeverityLevel f = ToSeverityLevel g"
    by (rule ToSeverityLevel_Severity) (simp add: f)
  have l: "SeverityLabel f = ToSeverityLevel g" by (simp add: f)
  have ne: "ToSeverityLevel g \<noteq> []"
    using ToSeverityLevel_cases [of g]
    by (auto simp: SeverityLow_def SeverityMedium_def SeverityHigh_def SeverityCritical_def SeverityUnknown_def)
  show ?thesis
    using s l ne ToSeverityLevel_cases [of g]
    by (simp add: f Sprintf_consoleURL del: Sprintf.simps)
qed

theorem ParseFindingData_derived_fields_witness:
  "ParseFindingData (NewApp sampleConfig) samplePayload = Inr sampleFinding \<and>
   SeverityLabel sampleFinding = ToSeverityLevel sampleFinding \<and>
   SeverityLabel sampleFinding = SeverityCritical \<and>
   ConsoleURL sampleFinding \<noteq> [] \<and> Raw sampleFinding = samplePayload"
  using ParseFindingData_derived_fields [OF ParseFindingData_samplePayload] ParseFindingData_samplePayload
  by (simp add: sampleFinding_def SeverityCritical_def)

subsection \<open>Sending the message\<close>

text \<open>
  C6: the message that \<open>CreateThread\<close> sends for a Finding has exactly these blocks, in
  this order: a header with the title; a section whose three fields are the severity
  label, the region and the account, each after its label; a section with the
  description as plain text; a divider; and an actions block with the one button
  \<open>View in Console\<close> whose URL is the \<open>ConsoleURL\<close> of the Finding. The message goes to the
  configured channel with the title as its text, and the answer of Slack to it is what
  \<open>CreateThread\<close> returns.
\<close>

theorem CreateThread_message:
  "fst (CreateThread api a f w) = api (posted w) (last (posted (snd (CreateThread api a f w)))) \<and>
   posted (snd (CreateThread api a f w)) = posted w @
     [\<lparr> ReqToken = token (client a), ReqChannel = SlackChannel (cfg a), ReqText = Title f,
        ReqBlocks =
         [HeaderBlock \<lparr> Type = ''plain_text'', Text = Title f, Emoji = True, Verbatim = False \<rparr>,
          SectionBlock None
            [\<lparr> Type = ''mrkdwn'', Text = ''*Severity:* '' @ SeverityLabel f, Emoji = False, Verbatim = False \<rparr>,
             \<lparr> Type = ''mrkdwn'', Text = ''*Region:* '' @ Region f, Emoji = False, Verbatim = False \<rparr>,
             \<lparr> Type = ''mrkdwn'', Text = ''*Account:* '' @ AccountID f, Emoji = False, Verbatim = False \<rparr>]
            None,
          SectionBlock
            (Some \<lparr> Type = ''plain_text'', Text = Description f, Emoji = False, Verbatim = False \<rparr>)
            [] None,
          DividerBlock,
          ActionBlock ''actions''
            [\<lparr> ActionID = ''view'', Value = [],
               ButtonText = \<lparr> Type = ''plain_text'', Text = ''View in Console'', Emoji = False, Verbatim = False \<rparr>,
               URL = ConsoleURL f \<rparr>]] \<rparr>]"
  by (simp add: CreateThread_def PostMessage_def NewTextBlockObject_def NewButtonBlockElement_def Let_def)

subsection \<open>The dispatcher\<close>

text \<open>
  C3: \<open>Process\<close> parses, then notifies. When parsing returns an error, \<open>Process\<close> returns
  that error and the world is left as it was: nothing is sent. When parsing returns a
  Finding, exactly one request is sent, the one that \<open>CreateThread\<close> builds for that
  Finding, and \<open>Process\<close> returns what Slack answers to it, a delivery error or success.
\<close>

theorem Process_parse_then_notify:
  "(\<forall>err. ParseFindingData a raw = Inl err \<longrightarrow> Process api a raw w = (Some err, w)) \<and>
   (\<forall>f. ParseFindingData a raw = Inr f \<longrightarrow>
      posted (snd (Process api a raw w)) = posted w @ [requestFor a f] \<and>
      posted (snd (Process api a raw w)) = posted (snd (CreateThread api a f w)) \<and>
      length (posted (snd (Process api a raw w))) = length (posted w) + 1 \<and>
      fst (Process api a raw w) = api (posted w) (requestFor a f))"
  by (auto simp: Process_Inl Process_Inr CreateThread_eq)

theorem Process_parse_then_notify_witness:
  "ParseFindingData (NewApp sampleConfig) Invalid = Inl SyntaxError \<and>
   Process slackRejects (NewApp sampleConfig) Invalid emptyWorld = (Some SyntaxError, emptyWorld) \<and>
   ParseFindingData (NewApp sampleConfig) samplePayload = Inr sampleFinding \<and>
   posted (snd (Process slackRejects (NewApp sampleConfig) samplePayload emptyWorld))
     = [requestFor (NewApp sampleConfig) sampleFinding] \<and>
   fst (Process slackRejects (NewApp sampleConfig) samplePayload emptyWorld)
     = Some (ErrorString ''channel_not_found'') \<and>
   fst (Process slackAccepts (NewApp sampleConfig) samplePayload emptyWorld) = None"
  using Process_parse_then_notify [of "NewApp sampleConfig" Invalid slackRejects emptyWorld]
    Process_parse_then_notify [of "NewApp sampleConfig" samplePayload slackRejects emptyWorld]
    Process_parse_then_notify [of "NewApp sampleConfig" samplePayload slackAccepts emptyWorld]
    ParseFindingData_samplePayload ParseFindingData_Invalid [of "NewApp sampleConfig"]
  by (simp add: emptyWorld_def slackRejects_def slackAccepts_def)

lemma ParseFindingData_base:
  "AwsConsoleURL (cfg a) = AwsConsoleURL (cfg a') \<Longrightarrow> ParseFindingData a raw = ParseFindingData a' raw"
  by (simp add: ParseFindingData_def split: prod.splits option.splits)

text \<open>
  C8: two runs of \<open>Process\<close> that differ only in the debug flag of the Config return the
  same result and send the same requests.
\<close>

theorem Process_debug_independent:
  "fst (Process api (a\<lparr>cfg := (cfg a)\<lparr>DebugEnabled := d\<rparr>\<rparr>) raw w)
     = fst (Process api (a\<lparr>cfg := (cfg a)\<lparr>DebugEnabled := d'\<rparr>\<rparr>) raw w) \<and>
   posted (snd (Process api (a\<lparr>cfg := (cfg a)\<lparr>DebugEnabled := d\<rparr>\<rparr>) raw w))
     = posted (snd (Process api (a\<lparr>cfg := (cfg a)\<lparr>DebugEnabled := d'\<rparr>\<rparr>) raw w))"
proof -
  let ?a = "a\<lparr>cfg := (cfg a)\<lparr>DebugEnabled := d\<rparr>\<rparr>" and ?a' = "a\<lparr>cfg := (cfg a)\<lparr>DebugEnabled := d'\<rparr>\<rparr>"
  have p: "ParseFindingData ?a raw = ParseFindingData ?a' raw"
    by (rule ParseFindingData_base) simp
  have r: "requestFor ?a f = requestFor ?a' f" for f
    by (simp add: requestFor_def)
  show ?thesis
  proof (cases "ParseFindingData ?a raw")
    case (Inl err)
    with p have "ParseFindingData ?a' raw = Inl err" by simp
    from Process_Inl [OF Inl, of api w] Process_Inl [OF this, of api w]
    show ?thesis by simp
  next
    case (Inr f)
    with p have "ParseFindingData ?a' raw = Inr f" by simp
    from Process_Inr [OF Inr, of api w] Process_Inr [OF this, of api w] r [of f]
    show ?thesis by simp
  qed
qed


subsection \<open>The configuration\<close>

text \<open>
  C5: \<open>BuildConfig\<close> returns a Config exactly when the token, the channel and the
  console URL are all set to a non-empty value, and the Config holds these values.
  Otherwise the error names the first missing variable in the order token, channel,
  console URL. The debug variable is not required: without it the Config, when there
  is one, has the flag off.
\<close>

theorem BuildConfig_required:
  "((\<exists>c. BuildConfig env = Inr c) \<longleftrightarrow>
      Getenv env ''APP_SLACK_TOKEN'' \<noteq> [] \<and> Getenv env ''APP_SLACK_CHANNEL'' \<noteq> [] \<and>
      Getenv env ''APP_AWS_CONSOLE_URL'' \<noteq> []) \<and>
   (Getenv env ''APP_SLACK_TOKEN'' = [] \<longrightarrow>
      BuildConfig env = Inl (ErrorString ''missing env var APP_SLACK_TOKEN'')) \<and>
   (Getenv env ''APP_SLACK_TOKEN'' \<noteq> [] \<and> Getenv env ''APP_SLACK_CHANNEL'' = [] \<longrightarrow>
      BuildConfig env = Inl (ErrorString ''missing env var APP_SLACK_CHANNEL'')) \<and>
   (Getenv env ''APP_SLACK_TOKEN'' \<noteq> [] \<and> Getenv env ''APP_SLACK_CHANNEL'' \<noteq> [] \<and>
    Getenv env ''APP_AWS_CONSOLE_URL'' = [] \<longrightarrow>
      BuildConfig env = Inl (ErrorString ''missing env var APP_AWS_CONSOLE_URL'')) \<and>
   (Getenv env ''APP_SLACK_TOKEN'' \<noteq> [] \<and> Getenv env ''APP_SLACK_CHANNEL'' \<noteq> [] \<and>
    Getenv env ''APP_AWS_CONSOLE_URL'' \<noteq> [] \<longrightarrow>
      BuildConfig env = Inr \<lparr> DebugEnabled = (Getenv env ''APP_DEBUG_ENABLED'' = ''true''),
                               AwsConsoleURL = Getenv env ''APP_AWS_CONSOLE_URL'',
                               SlackToken = Getenv env ''APP_SLACK_TOKEN'',
                               SlackChannel = Getenv env ''APP_SLACK_CHANNEL'' \<rparr>) \<and>
   (env ''APP_DEBUG_ENABLED'' = None \<longrightarrow>
      (\<forall>c. BuildConfig env = Inr c \<longrightarrow> \<not> DebugEnabled c))"
  by (auto simp: BuildConfig_def Let_def Getenv_def)

theorem BuildConfig_required_witness:
  "BuildConfig sampleEnv = Inr sampleConfig \<and>
   sampleEnv ''APP_DEBUG_ENABLED'' = None \<and> \<not> DebugEnabled sampleConfig \<and>
   Getenv (sampleEnv(''APP_SLACK_TOKEN'' := None, ''APP_AWS_CONSOLE_URL'' := None)) ''APP_SLACK_TOKEN'' = [] \<and>
   BuildConfig (sampleEnv(''APP_SLACK_TOKEN'' := None, ''APP_AWS_CONSOLE_URL'' := None))
     = Inl (ErrorString ''missing env var APP_SLACK_TOKEN'') \<and>
   Getenv (sampleEnv(''APP_SLACK_CHANNEL'' \<mapsto> [], ''APP_AWS_CONSOLE_URL'' := None)) ''APP_SLACK_CHANNEL'' = [] \<and>
   BuildConfig (sampleEnv(''APP_SLACK_CHANNEL'' \<mapsto> [], ''APP_AWS_CONSOLE_URL'' := None))
     = Inl (ErrorString ''missing env var APP_SLACK_CHANNEL'') \<and>
   Getenv (sampleEnv(''APP_AWS_CONSOLE_URL'' := None)) ''APP_AWS_CONSOLE_URL'' = [] \<and>
   BuildConfig (sampleEnv(''APP_AWS_CONSOLE_URL'' := None))
     = Inl (ErrorString ''missing env var APP_AWS_CONSOLE_URL'')"
  using BuildConfig_required [of sampleEnv]
    BuildConfig_required [of "sampleEnv(''APP_SLACK_TOKEN'' := None, ''APP_AWS_CONSOLE_URL'' := None)"]
    BuildConfig_required [of "sampleEnv(''APP_SLACK_CHANNEL'' \<mapsto> [], ''APP_AWS_CONSOLE_URL'' := None)"]
    BuildConfig_required [of "sampleEnv(''APP_AWS_CONSOLE_URL'' := None)"]
  by (simp add: sampleEnv_def sampleConfig_def Getenv_def)

text \<open>
  C10: the debug flag of the Config is on exactly when the debug variable is set to the
  string \<open>true\<close>. Setting the debug variable to any value \<open>d\<close>, or unsetting it, changes
  nothing else: an error stays the same error, and a Config stays the same Config but
  for the flag.
\<close>

theorem BuildConfig_debug:
  "(\<forall>c. BuildConfig env = Inr c \<longrightarrow> DebugEnabled c = (env ''APP_DEBUG_ENABLED'' = Some ''true'')) \<and>
   (\<forall>err. BuildConfig env = Inl err \<longrightarrow> BuildConfig (env(''APP_DEBUG_ENABLED'' := d)) = Inl err) \<and>
   (\<forall>c. BuildConfig env = Inr c \<longrightarrow>
      BuildConfig (env(''APP_DEBUG_ENABLED'' := d)) = Inr (c\<lparr>DebugEnabled := (d = Some ''true'')\<rparr>))"
  by (auto simp: BuildConfig_def Let_def Getenv_def split: option.splits if_splits)

theorem BuildConfig_debug_witness:
  "BuildConfig sampleEnv = Inr sampleConfig \<and>
   BuildConfig (sampleEnv(''APP_DEBUG_ENABLED'' \<mapsto> ''true'')) = Inr (sampleConfig\<lparr>DebugEnabled := True\<rparr>) \<and>
   BuildConfig (sampleEnv(''APP_DEBUG_ENABLED'' \<mapsto> ''TRUE'')) = Inr (sampleConfig\<lparr>DebugEnabled := False\<rparr>) \<and>
   BuildConfig (sampleEnv(''APP_DEBUG_ENABLED'' \<mapsto> ''1'')) = Inr (sampleConfig\<lparr>DebugEnabled := False\<rparr>) \<and>
   BuildConfig (sampleEnv(''APP_DEBUG_ENABLED'' \<mapsto> [])) = Inr (sampleConfig\<lparr>DebugEnabled := False\<rparr>) \<and>
   BuildConfig (Map.empty :: environ) = Inl (ErrorString ''missing env var APP_SLACK_TOKEN'') \<and>
   BuildConfig ((Map.empty :: environ)(''APP_DEBUG_ENABLED'' \<mapsto> ''true''))
     = Inl (ErrorString ''missing env var APP_SLACK_TOKEN'')"
proof -
  have ok: "BuildConfig sampleEnv = Inr sampleConfig"
    by (simp add: BuildConfig_def sampleEnv_def sampleConfig_def Getenv_def)
  have bad: "BuildConfig (Map.empty :: environ) = Inl (ErrorString ''missing env var APP_SLACK_TOKEN'')"
    by (simp add: BuildConfig_def Getenv_def)
  from BuildConfig_debug [of sampleEnv "Some ''true''"] BuildConfig_debug [of sampleEnv "Some ''TRUE''"]
    BuildConfig_debug [of sampleEnv "Some ''1''"] BuildConfig_debug [of sampleEnv "Some []"]
    BuildConfig_debug [of Map.empty "Some ''true''"] ok bad
  show ?thesis by simp
qed

subsection \<open>Replaying the samples\<close>

lemma processEvents_run:
  "processEvents api a evs w = (r, w') \<Longrightarrow>
     \<exists>ws k. k \<le> length evs \<and> length ws = Suc k \<and> ws ! 0 = w \<and>
       (\<forall>i<k. Process api a (Detail (evs ! i)) (ws ! i) = (None, ws ! Suc i)) \<and>
       (if k = length evs then r = None \<and> w' = ws ! k
        else \<exists>err. Process api a (Detail (evs ! k)) (ws ! k) = (Some err, w') \<and>
               r = Some (WrapError (''process id='' @ EventID (evs ! k) @ '': '') err))"
proof (induction evs arbitrary: w)
  case Nil
  then have "0 \<le> length ([] :: CloudWatchEvent list) \<and> length [w] = Suc 0 \<and> [w] ! 0 = w \<and>
       (\<forall>i<0. Process api a (Detail ([] ! i)) ([w] ! i) = (None, [w] ! Suc i)) \<and>
       (if 0 = length ([] :: CloudWatchEvent list) then r = None \<and> w' = [w] ! 0
        else \<exists>err. Process api a (Detail ([] ! 0)) ([w] ! 0) = (Some err, w') \<and>
               r = Some (WrapError (''process id='' @ EventID ([] ! 0) @ '': '') err))"
    by simp
  then show ?case by blast
next
  case (Cons e es)
  obtain ro w1 where p: "Process api a (Detail e) w = (ro, w1)"
    by (cases "Process api a (Detail e) w")
  show ?case
  proof (cases ro)
    case (Some err)
    with p Cons.prems have "r = Some (WrapError (''process id='' @ EventID e @ '': '') err)" "w' = w1"
      by simp_all
    with p Some
    have "0 \<le> length (e # es) \<and> length [w] = Suc 0 \<and> [w] ! 0 = w \<and>
       (\<forall>i<0. Process api a (Detail ((e # es) ! i)) ([w] ! i) = (None, [w] ! Suc i)) \<and>
       (if 0 = length (e # es) then r = None \<and> w' = [w] ! 0
        else \<exists>err. Process api a (Detail ((e # es) ! 0)) ([w] ! 0) = (Some err, w') \<and>
               r = Some (WrapError (''process id='' @ EventID ((e # es) ! 0) @ '': '') err))"
      by simp
    then show ?thesis by blast
  next
    case None
    with p Cons.prems have rest: "processEvents api a es w1 = (r, w')" by simp
    from Cons.IH [OF rest] obtain ws k where
      k: "k \<le> length es" and l: "length ws = Suc k" and z: "ws ! 0 = w1" and
      run: "\<forall>i<k. Process api a (Detail (es ! i)) (ws ! i) = (None, ws ! Suc i)" and
      fin: "if k = length es then r = None \<and> w' = ws ! k
            else \<exists>err. Process api a (Detail (es ! k)) (ws ! k) = (Some err, w') \<and>
                   r = Some (WrapError (''process id='' @ EventID (es ! k) @ '': '') err)"
      by blast
    have run': "\<forall>i<Suc k. Process api a (Detail ((e # es) ! i)) ((w # ws) ! i)
                  = (None, (w # ws) ! Suc i)"
    proof (intro allI impI)
      fix i assume i: "i < Suc k"
      show "Process api a (Detail ((e # es) ! i)) ((w # ws) ! i) = (None, (w # ws) ! Suc i)"
      proof (cases i)
        case 0
        with p None z show ?thesis by simp
      next
        case (Suc j)
        with i run show ?thesis by simp
      qed
    qed
    from fin have fin': "if Suc k = length (e # es) then r = None \<and> w' = (w # ws) ! Suc k
            else \<exists>err. Process api a (Detail ((e # es) ! Suc k)) ((w # ws) ! Suc k) = (Some err, w') \<and>
                   r = Some (WrapError (''process id='' @ EventID ((e # es) ! Suc k) @ '': '') err)"
      by (cases "k = length es") simp_all
    from k l run' fin'
    have "Suc k \<le> length (e # es) \<and> length (w # ws) = Suc (Suc k) \<and> (w # ws) ! 0 = w \<and>
       (\<forall>i<Suc k. Process api a (Detail ((e # es) ! i)) ((w # ws) ! i) = (None, (w # ws) ! Suc i)) \<and>
       (if Suc k = length (e # es) then r = None \<and> w' = (w # ws) ! Suc k
        else \<exists>err. Process api a (Detail ((e # es) ! Suc k)) ((w # ws) ! Suc k) = (Some err, w') \<and>
               r = Some (WrapError (''process id='' @ EventID ((e # es) ! Suc k) @ '': '') err))"
      by simp
    then show ?thesis by blast
  qed
qed

lemma processEvents_all_ok:
  "\<forall>e\<in>set evs. \<forall>w0. fst (Process api a (Detail e) w0) = None \<Longrightarrow>
     fst (processEvents api a evs w) = None"
proof (induction evs arbitrary: w)
  case Nil
  show ?case by simp
next
  case (Cons e es)
  obtain ro w1 where p: "Process api a (Detail e) w = (ro, w1)"
    by (cases "Process api a (Detail e) w")
  from Cons.prems have "fst (Process api a (Detail e) w) = None" by simp
  with p have "ro = None" by simp
  with p Cons show ?case by simp
qed

text \<open>
  C9: when the samples file is read and decoded into the events \<open>evs\<close>, \<open>ProcessSamples\<close>
  runs \<open>Process\<close> on the detail of each event in the order of the list, each call in the
  world that the call before it left: the worlds \<open>ws\<close>. The first \<open>k\<close> calls succeed.
  Either \<open>k\<close> is the number of events, and the result is success in the last of these
  worlds; or the call on event \<open>k\<close> fails, the result is this failure wrapped with the
  id of event \<open>k\<close>, and the world at the end is the one that the failing call left: no
  later event is processed. When every call succeeds, the result is success.
\<close>

theorem ProcessSamples_replay:
  assumes "readFile ''fixtures/samples.json'' = Inr data"
    and "unmarshalEvents data = Inr evs"
    and "ProcessSamples readFile unmarshalEvents api a w = (r, w')"
  shows "(\<exists>ws k. k \<le> length evs \<and> length ws = Suc k \<and> ws ! 0 = w \<and>
            (\<forall>i<k. Process api a (Detail (evs ! i)) (ws ! i) = (None, ws ! Suc i)) \<and>
            (if k = length evs then r = None \<and> w' = ws ! k
             else \<exists>err. Process api a (Detail (evs ! k)) (ws ! k) = (Some err, w') \<and>
                    r = Some (WrapError (''process id='' @ EventID (evs ! k) @ '': '') err))) \<and>
         ((\<forall>e\<in>set evs. \<forall>w0. fst (Process api a (Detail e) w0) = None) \<longrightarrow> r = None)"
proof -
  from assms have pe: "processEvents api a evs w = (r, w')"
    by (simp add: ProcessSamples_def)
  have "(\<forall>e\<in>set evs. \<forall>w0. fst (Process api a (Detail e) w0) = None) \<longrightarrow> r = None"
  proof
    assume "\<forall>e\<in>set evs. \<forall>w0. fst (Process api a (Detail e) w0) = None"
    from processEvents_all_ok [OF this, of w] pe show "r = None" by simp
  qed
  with processEvents_run [OF pe] show ?thesis by blast
qed

lemma Process_samplePayload:
  "Process slackAccepts (NewApp sampleConfig) samplePayload w =
     (None, w\<lparr>posted := posted w @ [requestFor (NewApp sampleConfig) sampleFinding]\<rparr>)"
proof -
  have "\<not> DebugEnabled (cfg (NewApp sampleConfig))" by (simp add: NewApp_def sampleConfig_def)
  then show ?thesis
    by (simp add: Process_def ParseFindingData_samplePayload CreateThread_eq slackAccepts_def)
qed

lemma Process_samplePayload_rejected:
  "Process slackRejects (NewApp sampleConfig) samplePayload w =
     (Some (ErrorString ''channel_not_found''),
      w\<lparr>posted := posted w @ [requestFor (NewApp sampleConfig) sampleFinding]\<rparr>)"
proof -
  have "\<not> DebugEnabled (cfg (NewApp sampleConfig))" by (simp add: NewApp_def sampleConfig_def)
  then show ?thesis
    by (simp add: Process_def ParseFindingData_samplePayload CreateThread_eq slackRejects_def)
qed

lemma ProcessSamples_sample:
  "ProcessSamples sampleReadFile sampleUnmarshalEvents slackAccepts (NewApp sampleConfig) emptyWorld =
     (Some (WrapError ''process id=e2: '' SyntaxError),
      \<lparr> posted = [requestFor (NewApp sampleConfig) sampleFinding], logged = [] \<rparr>)"
  by (simp add: ProcessSamples_def sampleReadFile_def sampleUnmarshalEvents_def sampleEvents_def
      Process_samplePayload Process_Inl [OF ParseFindingData_Invalid] emptyWorld_def)

lemma ProcessSamples_sample_rejected:
  "ProcessSamples sampleReadFile sampleUnmarshalGood slackRejects (NewApp sampleConfig) emptyWorld =
     (Some (WrapError ''process id=e1: '' (ErrorString ''channel_not_found'')),
      \<lparr> posted = [requestFor (NewApp sampleConfig) sampleFinding], logged = [] \<rparr>)"
  by (simp add: ProcessSamples_def sampleReadFile_def sampleUnmarshalGood_def sampleGoodEvents_def
      Process_samplePayload_rejected emptyWorld_def)

theorem ProcessSamples_replay_witness:
  "sampleReadFile ''fixtures/samples.json'' = Inr ''[three events]'' \<and>
   sampleUnmarshalEvents ''[three events]'' = Inr sampleEvents \<and>
   ProcessSamples sampleReadFile sampleUnmarshalEvents slackAccepts (NewApp sampleConfig) emptyWorld =
     (Some (WrapError ''process id=e2: '' SyntaxError),
      \<lparr> posted = [requestFor (NewApp sampleConfig) sampleFinding], logged = [] \<rparr>) \<and>
   (\<exists>ws k err. k < length sampleEvents \<and> length ws = Suc k \<and> ws ! 0 = emptyWorld \<and>
      Process slackAccepts (NewApp sampleConfig) (Detail (sampleEvents ! k)) (ws ! k)
        = (Some err, \<lparr> posted = [requestFor (NewApp sampleConfig) sampleFinding], logged = [] \<rparr>) \<and>
      Some (WrapError ''process id=e2: '' SyntaxError)
        = Some (WrapError (''process id='' @ EventID (sampleEvents ! k) @ '': '') err)) \<and>
   sampleUnmarshalGood ''[three events]'' = Inr sampleGoodEvents \<and>
   ProcessSamples sampleReadFile sampleUnmarshalGood slackRejects (NewApp sampleConfig) emptyWorld =
     (Some (WrapError ''process id=e1: '' (ErrorString ''channel_not_found'')),
      \<lparr> posted = [requestFor (NewApp sampleConfig) sampleFinding], logged = [] \<rparr>) \<and>
   (\<exists>ws k err. k < length sampleGoodEvents \<and> length ws = Suc k \<and> ws ! 0 = emptyWorld \<and>
      Process slackRejects (NewApp sampleConfig) (Detail (sampleGoodEvents ! k)) (ws ! k)
        = (Some err, \<lparr> posted = [requestFor (NewApp sampleConfig) sampleFinding], logged = [] \<rparr>) \<and>
      Some (WrapError ''process id=e1: '' (ErrorString ''channel_not_found''))
        = Some (WrapError (''process id='' @ EventID (sampleGoodEvents ! k) @ '': '') err)) \<and>
   fst (ProcessSamples sampleReadFile sampleUnmarshalGood slackAccepts (NewApp sampleConfig) emptyWorld) = None"
proof -
  let ?A = "NewApp sampleConfig"
  let ?W = "\<lparr> posted = [requestFor (NewApp sampleConfig) sampleFinding], logged = [] \<rparr>"
  have h1: "sampleReadFile ''fixtures/samples.json'' = Inr ''[three events]''"
    by (simp add: sampleReadFile_def)
  have h2: "sampleUnmarshalEvents ''[three events]'' = Inr sampleEvents"
    by (simp add: sampleUnmarshalEvents_def)
  have h4: "sampleUnmarshalGood ''[three events]'' = Inr sampleGoodEvents"
    by (simp add: sampleUnmarshalGood_def)
  have h5: "\<forall>e\<in>set sampleGoodEvents. \<forall>w0. fst (Process slackAccepts ?A (Detail e) w0) = None"
    by (simp add: sampleGoodEvents_def Process_samplePayload)
  have h6: "ProcessSamples sampleReadFile sampleUnmarshalGood slackAccepts ?A emptyWorld
      = (fst (ProcessSamples sampleReadFile sampleUnmarshalGood slackAccepts ?A emptyWorld),
         snd (ProcessSamples sampleReadFile sampleUnmarshalGood slackAccepts ?A emptyWorld))"
    by simp
  from ProcessSamples_replay [OF h1 h2 ProcessSamples_sample] obtain ws k where
    k: "k \<le> length sampleEvents" and l: "length ws = Suc k" and z: "ws ! 0 = emptyWorld" and
    fin: "if k = length sampleEvents
          then Some (WrapError ''process id=e2: '' SyntaxError) = None \<and> ?W = ws ! k
          else \<exists>err. Process slackAccepts ?A (Detail (sampleEvents ! k)) (ws ! k) = (Some err, ?W) \<and>
                 Some (WrapError ''process id=e2: '' SyntaxError)
                   = Some (WrapError (''process id='' @ EventID (sampleEvents ! k) @ '': '') err)"
    by blast
  from fin have ne: "k \<noteq> length sampleEvents" by (auto split: if_splits)
  with k have lt: "k < length sampleEvents" by simp
  from fin ne obtain err where
    "Process slackAccepts ?A (Detail (sampleEvents ! k)) (ws ! k) = (Some err, ?W)"
    "Some (WrapError ''process id=e2: '' SyntaxError)
       = Some (WrapError (''process id='' @ EventID (sampleEvents ! k) @ '': '') err)"
    by auto
  with lt l z have a: "\<exists>ws k err. k < length sampleEvents \<and> length ws = Suc k \<and> ws ! 0 = emptyWorld \<and>
      Process slackAccepts ?A (Detail (sampleEvents ! k)) (ws ! k) = (Some err, ?W) \<and>
      Some (WrapError ''process id=e2: '' SyntaxError)
        = Some (WrapError (''process id='' @ EventID (sampleEvents ! k) @ '': '') err)"
    by blast
  from ProcessSamples_replay [OF h1 h4 ProcessSamples_sample_rejected] obtain ws' k' where
    k': "k' \<le> length sampleGoodEvents" and l': "length ws' = Suc k'" and z': "ws' ! 0 = emptyWorld" and
    fin': "if k' = length sampleGoodEvents
          then Some (WrapError ''process id=e1: '' (ErrorString ''channel_not_found'')) = None \<and> ?W = ws' ! k'
          else \<exists>err. Process slackRejects ?A (Detail (sampleGoodEvents ! k')) (ws' ! k') = (Some err, ?W) \<and>
                 Some (WrapError ''process id=e1: '' (ErrorString ''channel_not_found''))
                   = Some (WrapError (''process id='' @ EventID (sampleGoodEvents ! k') @ '': '') err)"
    by blast
  from fin' have ne': "k' \<noteq> length sampleGoodEvents" by (auto split: if_splits)
  with k' have lt': "k' < length sampleGoodEvents" by simp
  from fin' ne' obtain err' where
    "Process slackRejects ?A (Detail (sampleGoodEvents ! k')) (ws' ! k') = (Some err', ?W)"
    "Some (WrapError ''process id=e1: '' (ErrorString ''channel_not_found''))
       = Some (WrapError (''process id='' @ EventID (sampleGoodEvents ! k') @ '': '') err')"
    by auto
  with lt' l' z' have b: "\<exists>ws k err. k < length sampleGoodEvents \<and> length ws = Suc k \<and> ws ! 0 = emptyWorld \<and>
      Process slackRejects ?A (Detail (sampleGoodEvents ! k)) (ws ! k) = (Some err, ?W) \<and>
      Some (WrapError ''process id=e1: '' (ErrorString ''channel_not_found''))
        = Some (WrapError (''process id='' @ EventID (sampleGoodEvents ! k) @ '': '') err)"
    by blast
  from ProcessSamples_replay [OF h1 h4 h6] h5
  have c: "fst (ProcessSamples sampleReadFile sampleUnmarshalGood slackAccepts ?A emptyWorld) = None"
    by blast
  from h1 h2 ProcessSamples_sample a h4 ProcessSamples_sample_rejected b c show ?thesis by blast
qed

end
